theory Spec2Isabelle
  imports Complex_Main "HOL-Library.Sublist"
begin

section \<open>The sliding-window rate limiter of \<^verbatim>\<open>chatbot/throttling.py\<close>\<close>

text \<open>
  Conventions of the embedding.

  \<^item> A timestamp is a Python float; it is idealised as a \<^typ>\<open>real\<close>, so \<open>+\<close>, \<open>-\<close> and
    the comparisons are exact.
  \<^item> Every call of \<^verbatim>\<open>time.time()\<close> is a parameter of the function that makes it, in
    the order of the calls. \<^verbatim>\<open>check_rate_limit\<close> reads the clock on line 79
    (\<open>current_time\<close>) and once more inside the fetch helper on line 62 or 42
    (\<open>fetch_time\<close>).
  \<^item> Python lists are mutable objects. The fetch helper of the in-memory store returns
    the very list object it has just stored, and the record helper appends to that object
    in place, so list objects live in an explicit heap and the program passes references.
  \<^item> The Redis client is an external library. Its four operations are parameters: each
    takes the server's state and returns either an exception or a reply, with the
    server's next state. \<^verbatim>\<open>float\<close> and \<^verbatim>\<open>str\<close> on the members of the sorted set
    are parameters as well.
  \<^item> A raise is a value \<open>Inl e\<close> of a sum type.
\<close>

subsection \<open>Configuration (lines 12--16)\<close>

record rate_limit_config =
  config_limit :: int
  config_window :: int

definition RATE_LIMITS :: "string \<rightharpoonup> rate_limit_config" where
  "RATE_LIMITS = map_of
     [(''global_unauthenticated_user'', \<lparr>config_limit = 20, config_window = 60\<rparr>),
      (''authenticated_user'', \<lparr>config_limit = 100, config_window = 60\<rparr>),
      (''premium_user'', \<lparr>config_limit = 500, config_window = 60\<rparr>)]"

subsection \<open>Exceptions and results\<close>

text \<open>The \<^verbatim>\<open>detail\<close> dictionary of the 429 response (lines 93--100).\<close>

record rate_limit_detail =
  detail_error :: string
  detail_limit :: int
  detail_window :: int
  current_usage :: int
  detail_reset_time :: real
  retry_after :: int

datatype detail = Message string | Payload rate_limit_detail

datatype error =
    KeyError
  | ValueError
  | AttributeError
  | BackendError
  | HTTPException int detail

text \<open>The dictionary returned on admission (lines 110--115).\<close>

record rate_limit_status =
  allowed :: bool
  status_limit :: int
  remaining :: int
  reset_time :: real


subsection \<open>The Redis client and the interpreter state\<close>

type_synonym ref = nat

record 'r redis_client =
  zremrangebyscore :: "string \<Rightarrow> real \<Rightarrow> real \<Rightarrow> 'r \<Rightarrow> (error + nat) \<times> 'r"
  zrangebyscore :: "string \<Rightarrow> real \<Rightarrow> real \<Rightarrow> 'r \<Rightarrow> (error + string list) \<times> 'r"
  zadd :: "string \<Rightarrow> string \<Rightarrow> real \<Rightarrow> 'r \<Rightarrow> (error + nat) \<times> 'r"
  expire :: "string \<Rightarrow> int \<Rightarrow> 'r \<Rightarrow> (error + bool) \<times> 'r"
  py_float :: "string \<Rightarrow> error + real"
  py_str :: "real \<Rightarrow> string"

text \<open>
  \<open>redis_client\<close> and \<open>memory_store\<close> are the two attributes of \<^verbatim>\<open>RateLimiter\<close>
  (lines 31--33); \<open>memory_store\<close> is the \<^verbatim>\<open>defaultdict(list)\<close> of line 19, a dictionary
  from keys to references of list objects. \<open>redis_server\<close> is the state of the server
  behind the client, \<open>heap\<close> holds the list objects and \<open>next_ref\<close> is the next
  unused reference.
\<close>

record 'r rate_limiter =
  redis_client :: "'r redis_client option"
  redis_server :: 'r
  memory_store :: "string \<rightharpoonup> ref"
  heap :: "ref \<Rightarrow> real list"
  next_ref :: ref

text \<open>Creating a list object: a list display, a comprehension, or \<^verbatim>\<open>list()\<close>.\<close>

definition new_list :: "real list \<Rightarrow> 'r rate_limiter \<Rightarrow> ref \<times> 'r rate_limiter" where
  "new_list xs self =
     (next_ref self,
      self\<lparr>heap := (heap self)(next_ref self := xs), next_ref := Suc (next_ref self)\<rparr>)"

text \<open>
  \<^verbatim>\<open>self.memory_store[key]\<close> on the \<^verbatim>\<open>defaultdict(list)\<close>: a missing key is first bound
  to a new empty list.
\<close>

definition memory_store_getitem :: "string \<Rightarrow> 'r rate_limiter \<Rightarrow> ref \<times> 'r rate_limiter" where
  "memory_store_getitem key self =
     (case memory_store self key of
        Some a \<Rightarrow> (a, self)
      | None \<Rightarrow>
          (case new_list [] self of
             (a, self') \<Rightarrow> (a, self'\<lparr>memory_store := (memory_store self')(key \<mapsto> a)\<rparr>)))"

text \<open>The records a key holds in the in-memory store, read without creating it.\<close>

definition records :: "'r rate_limiter \<Rightarrow> string \<Rightarrow> real list" where
  "records self key = (case memory_store self key of None \<Rightarrow> [] | Some a \<Rightarrow> heap self a)"

subsection \<open>Python built-ins\<close>

text \<open>\<^verbatim>\<open>min\<close> of a list raises \<^verbatim>\<open>ValueError\<close> on the empty list.\<close>

fun py_min :: "real list \<Rightarrow> error + real" where
  "py_min [] = Inl ValueError"
| "py_min (x # xs) = Inr (fold min xs x)"

text \<open>\<^verbatim>\<open>int\<close> of a float truncates toward zero.\<close>

definition py_int :: "real \<Rightarrow> int" where
  "py_int x = (if 0 \<le> x then \<lfloor>x\<rfloor> else \<lceil>x\<rceil>)"

text \<open>\<^verbatim>\<open>[float(req) for req in requests]\<close>: the first failing conversion raises.\<close>

fun float_all :: "(string \<Rightarrow> error + real) \<Rightarrow> string list \<Rightarrow> error + real list" where
  "float_all f [] = Inr []"
| "float_all f (req # requests) =
     (case f req of
        Inl e \<Rightarrow> Inl e
      | Inr x \<Rightarrow> (case float_all f requests of Inl e \<Rightarrow> Inl e | Inr xs \<Rightarrow> Inr (x # xs)))"

subsection \<open>\<^verbatim>\<open>RateLimiter\<close> (lines 30--115)\<close>

definition get_rate_limit_config :: "string \<Rightarrow> error + rate_limit_config" where
  "get_rate_limit_config user_type =
     (case RATE_LIMITS ''global_unauthenticated_user'' of
        None \<Rightarrow> Inl KeyError
      | Some dflt \<Rightarrow>
          (case RATE_LIMITS user_type of None \<Rightarrow> Inr dflt | Some config \<Rightarrow> Inr config))"

text \<open>
  Lines 39--50. The body of the \<^verbatim>\<open>try\<close> yields the list or the exception; the handler
  turns every exception into a new empty list. With no client the attribute access on
  \<^verbatim>\<open>None\<close> raises inside the \<^verbatim>\<open>try\<close>.
\<close>

definition get_requests_from_redis_try ::
  "'r rate_limiter \<Rightarrow> string \<Rightarrow> int \<Rightarrow> real \<Rightarrow> (error + real list) \<times> 'r rate_limiter" where
  "get_requests_from_redis_try self key window current_time =
     (case redis_client self of
        None \<Rightarrow> (Inl AttributeError, self)
      | Some c \<Rightarrow>
          (case zremrangebyscore c key 0 (current_time - real_of_int window) (redis_server self) of
             (Inl e, r1) \<Rightarrow> (Inl e, self\<lparr>redis_server := r1\<rparr>)
           | (Inr _, r1) \<Rightarrow>
               (case zrangebyscore c key (current_time - real_of_int window) current_time r1 of
                  (Inl e, r2) \<Rightarrow> (Inl e, self\<lparr>redis_server := r2\<rparr>)
                | (Inr requests, r2) \<Rightarrow>
                    (float_all (py_float c) requests, self\<lparr>redis_server := r2\<rparr>))))"

definition get_requests_from_redis ::
  "'r rate_limiter \<Rightarrow> string \<Rightarrow> int \<Rightarrow> real \<Rightarrow> ref \<times> 'r rate_limiter" where
  "get_requests_from_redis self key window current_time =
     (case get_requests_from_redis_try self key window current_time of
        (Inr xs, self') \<Rightarrow> new_list xs self'
      | (Inl e, self') \<Rightarrow> new_list [] self')"

text \<open>Lines 52--58; the function returns \<^verbatim>\<open>None\<close> on both paths.\<close>

definition add_request_to_redis_try ::
  "'r rate_limiter \<Rightarrow> string \<Rightarrow> real \<Rightarrow> int \<Rightarrow> (error + unit) \<times> 'r rate_limiter" where
  "add_request_to_redis_try self key timestamp window =
     (case redis_client self of
        None \<Rightarrow> (Inl AttributeError, self)
      | Some c \<Rightarrow>
          (case zadd c key (py_str c timestamp) timestamp (redis_server self) of
             (Inl e, r1) \<Rightarrow> (Inl e, self\<lparr>redis_server := r1\<rparr>)
           | (Inr _, r1) \<Rightarrow>
               (case expire c key window r1 of
                  (Inl e, r2) \<Rightarrow> (Inl e, self\<lparr>redis_server := r2\<rparr>)
                | (Inr _, r2) \<Rightarrow> (Inr (), self\<lparr>redis_server := r2\<rparr>))))"

definition add_request_to_redis ::
  "'r rate_limiter \<Rightarrow> string \<Rightarrow> real \<Rightarrow> int \<Rightarrow> 'r rate_limiter" where
  "add_request_to_redis self key timestamp window =
     (case add_request_to_redis_try self key timestamp window of
        (Inr _, self') \<Rightarrow> self'
      | (Inl e, self') \<Rightarrow> self')"

text \<open>
  Lines 60--67. The comprehension builds a new list object, the assignment binds the key
  to it, and the \<^verbatim>\<open>return\<close> reads the key again: the caller receives the stored object.
\<close>

definition get_requests_from_memory ::
  "'r rate_limiter \<Rightarrow> string \<Rightarrow> int \<Rightarrow> real \<Rightarrow> ref \<times> 'r rate_limiter" where
  "get_requests_from_memory self key window current_time =
     (case memory_store_getitem key self of
        (old, self1) \<Rightarrow>
          (case new_list (filter (\<lambda>t. t > current_time - real_of_int window) (heap self1 old)) self1 of
             (new, self2) \<Rightarrow>
               memory_store_getitem key
                 (self2\<lparr>memory_store := (memory_store self2)(key \<mapsto> new)\<rparr>)))"

text \<open>Lines 69--71: \<^verbatim>\<open>append\<close> changes the stored list object in place.\<close>

definition add_request_to_memory :: "'r rate_limiter \<Rightarrow> string \<Rightarrow> real \<Rightarrow> 'r rate_limiter" where
  "add_request_to_memory self key timestamp =
     (case memory_store_getitem key self of
        (a, self1) \<Rightarrow> self1\<lparr>heap := (heap self1)(a := heap self1 a @ [timestamp])\<rparr>)"

text \<open>
  Lines 73--115. \<open>recent_requests\<close> is a reference; each \<^verbatim>\<open>len(recent_requests)\<close> reads
  the object at the moment it is evaluated: on line 89 and 97 before the request is
  recorded, on line 113 after.
\<close>

definition check_rate_limit ::
  "'r rate_limiter \<Rightarrow> string \<Rightarrow> string \<Rightarrow> real \<Rightarrow> real
     \<Rightarrow> (error + rate_limit_status) \<times> 'r rate_limiter" where
  "check_rate_limit self user_id user_type current_time fetch_time =
     (case get_rate_limit_config user_type of
        Inl e \<Rightarrow> (Inl e, self)
      | Inr config \<Rightarrow>
          (let limit = config_limit config;
               window = config_window config;
               key = ''rate_limit:'' @ user_id in
           case (if redis_client self \<noteq> None
                 then get_requests_from_redis self key window fetch_time
                 else get_requests_from_memory self key window fetch_time) of
             (recent_requests, self1) \<Rightarrow>
               if int (length (heap self1 recent_requests)) \<ge> limit
               then
                 (case py_min (heap self1 recent_requests) of
                    Inl e \<Rightarrow> (Inl e, self1)
                  | Inr m \<Rightarrow>
                      (let reset = m + real_of_int window in
                       (Inl (HTTPException 429 (Payload
                          \<lparr>detail_error = ''Rate limit exceeded'',
                           detail_limit = limit,
                           detail_window = window,
                           current_usage = int (length (heap self1 recent_requests)),
                           detail_reset_time = reset,
                           retry_after = py_int (reset - current_time)\<rparr>)), self1)))
               else
                 (let self2 =
                    (if redis_client self1 \<noteq> None
                     then add_request_to_redis self1 key current_time window
                     else add_request_to_memory self1 key current_time)
                  in (Inr \<lparr>allowed = True,
                           status_limit = limit,
                           remaining = limit - int (length (heap self2 recent_requests)) - 1,
                           reset_time = current_time + real_of_int window\<rparr>, self2))))"

subsection \<open>Module functions (lines 120--139)\<close>

definition apply_rate_limit ::
  "'r rate_limiter \<Rightarrow> string \<Rightarrow> string \<Rightarrow> real \<Rightarrow> real
     \<Rightarrow> (error + rate_limit_status) \<times> 'r rate_limiter" where
  "apply_rate_limit rate_limiter user_id user_type current_time fetch_time =
     check_rate_limit rate_limiter user_id user_type current_time fetch_time"


subsection \<open>The rate-limited endpoint (\<^verbatim>\<open>chatbot/main.py\<close>, lines 209--250)\<close>

record rag_request =
  question :: string
  session_id :: "string option"
  user_context :: "(string \<times> string) list option"

text \<open>
  Everything the handler does after the admission (session history, retrieval, the
  chain, the response object; lines 216--246) is the parameter \<open>respond\<close>. The handler's
  \<^verbatim>\<open>except Exception\<close> catches whatever the \<^verbatim>\<open>try\<close> raises, the exception of
  \<^verbatim>\<open>apply_rate_limit\<close> included, and raises the status 500 in its place.
\<close>

definition ask_rag_endpoint ::
  "(rag_request \<Rightarrow> error + 'a) \<Rightarrow> rag_request \<Rightarrow> 'r rate_limiter \<Rightarrow> real \<Rightarrow> real
     \<Rightarrow> (error + 'a) \<times> 'r rate_limiter" where
  "ask_rag_endpoint respond request rate_limiter current_time fetch_time =
     (case apply_rate_limit rate_limiter ''global_unauthenticated_user''
             ''global_unauthenticated_user'' current_time fetch_time of
        (Inl e, rate_limiter') \<Rightarrow>
          (Inl (HTTPException 500 (Message ''Internal server error'')), rate_limiter')
      | (Inr _, rate_limiter') \<Rightarrow>
          (case respond request of
             Inl e \<Rightarrow> (Inl (HTTPException 500 (Message ''Internal server error'')), rate_limiter')
           | Inr response \<Rightarrow> (Inr response, rate_limiter')))"

subsection \<open>Notions used to state the properties\<close>

text \<open>
  The fetch step of lines 83--86 and 129--132: the shared backend when there is a client,
  the in-memory store otherwise.
\<close>

definition fetch_step :: "'r rate_limiter \<Rightarrow> string \<Rightarrow> int \<Rightarrow> real \<Rightarrow> ref \<times> 'r rate_limiter" where
  "fetch_step self key window fetch_time =
     (if redis_client self \<noteq> None
      then get_requests_from_redis self key window fetch_time
      else get_requests_from_memory self key window fetch_time)"

text \<open>The records of a key that lie in the window ending at \<open>t\<close>.\<close>

abbreviation in_window :: "'r rate_limiter \<Rightarrow> string \<Rightarrow> int \<Rightarrow> real \<Rightarrow> real list" where
  "in_window self key window t \<equiv> filter (\<lambda>x. x > t - real_of_int window) (records self key)"

text \<open>Whether an exception is the rejection raised on line 91.\<close>

fun rate_limit_exceeded :: "error \<Rightarrow> bool" where
  "rate_limit_exceeded (HTTPException code (Payload d)) = (code = 429)"
| "rate_limit_exceeded _ = False"

text \<open>Sequential calls for one user, each with its two clock readings.\<close>

fun check_sequence ::
  "'r rate_limiter \<Rightarrow> string \<Rightarrow> string \<Rightarrow> (real \<times> real) list \<Rightarrow> (error + rate_limit_status) list" where
  "check_sequence self user_id user_type [] = []"
| "check_sequence self user_id user_type ((current_time, fetch_time) # ts) =
     (case check_rate_limit self user_id user_type current_time fetch_time of
        (r, self') \<Rightarrow> r # check_sequence self' user_id user_type ts)"

subsection \<open>Concrete states and clients\<close>

text \<open>The process after a failed connection at start-up (lines 26--28), before any request.\<close>

definition fallback_limiter :: "unit rate_limiter" where
  "fallback_limiter =
     \<lparr>redis_client = None, redis_server = (), memory_store = Map.empty,
      heap = (\<lambda>a. []), next_ref = 0\<rparr>"

text \<open>The in-memory store with \<open>xs\<close> recorded under one key.\<close>

definition fallback_with :: "string \<Rightarrow> real list \<Rightarrow> unit rate_limiter" where
  "fallback_with key xs =
     \<lparr>redis_client = None, redis_server = (), memory_store = [key \<mapsto> 0],
      heap = (\<lambda>a. [])(0 := xs), next_ref = 1\<rparr>"

definition twenty_halves :: "real list" where
  "twenty_halves =
     [1/2, 1/2, 1/2, 1/2, 1/2, 1/2, 1/2, 1/2, 1/2, 1/2,
      1/2, 1/2, 1/2, 1/2, 1/2, 1/2, 1/2, 1/2, 1/2, 1/2]"

definition nineteen_zeros :: "real list" where
  "nineteen_zeros = [0, 0, 0, 0, 0, 0, 0, 0, 0, 0, 0, 0, 0, 0, 0, 0, 0, 0, 0]"

text \<open>
  A backend whose every call raises, and one that counts the members written and fails on
  the second call of each step.
\<close>

definition unreachable_client :: "nat redis_client" where
  "unreachable_client =
     \<lparr>zremrangebyscore = (\<lambda>key lo hi r. (Inl BackendError, r)),
      zrangebyscore = (\<lambda>key lo hi r. (Inl BackendError, r)),
      zadd = (\<lambda>key member score r. (Inl BackendError, r)),
      expire = (\<lambda>key seconds r. (Inl BackendError, r)),
      py_float = (\<lambda>s. Inl ValueError),
      py_str = (\<lambda>x. [])\<rparr>"

definition flaky_client :: "nat redis_client" where
  "flaky_client =
     \<lparr>zremrangebyscore = (\<lambda>key lo hi r. (Inr 0, r)),
      zrangebyscore = (\<lambda>key lo hi r. (Inl BackendError, r)),
      zadd = (\<lambda>key member score r. (Inr 1, Suc r)),
      expire = (\<lambda>key seconds r. (Inl BackendError, r)),
      py_float = (\<lambda>s. Inl ValueError),
      py_str = (\<lambda>x. [])\<rparr>"

definition shared_limiter :: "nat redis_client \<Rightarrow> nat rate_limiter" where
  "shared_limiter c =
     \<lparr>redis_client = Some c, redis_server = 0, memory_store = Map.empty,
      heap = (\<lambda>a. []), next_ref = 0\<rparr>"

text \<open>What a caller reads from a result: \<open>remaining\<close> of an admission, \<open>current_usage\<close> of a rejection.\<close>

fun remaining_of :: "error + rate_limit_status \<Rightarrow> int option" where
  "remaining_of (Inl e) = None"
| "remaining_of (Inr status) = Some (remaining status)"

fun usage_of :: "error + rate_limit_status \<Rightarrow> int option" where
  "usage_of (Inl (HTTPException code (Payload d))) = Some (current_usage d)"
| "usage_of _ = None"

text \<open>Twenty calls, each with both clock readings at time \<open>0\<close>.\<close>

definition twenty_calls :: "(real \<times> real) list" where
  "twenty_calls =
     [(0, 0), (0, 0), (0, 0), (0, 0), (0, 0), (0, 0), (0, 0), (0, 0), (0, 0), (0, 0),
      (0, 0), (0, 0), (0, 0), (0, 0), (0, 0), (0, 0), (0, 0), (0, 0), (0, 0), (0, 0)]"

text \<open>Two requests of different sessions, and a pipeline that answers every request.\<close>

definition request_a :: rag_request where
  "request_a = \<lparr>question = ''opening hours?'', session_id = Some ''a'', user_context = None\<rparr>"

definition request_b :: rag_request where
  "request_b = \<lparr>question = ''menu?'', session_id = Some ''b'', user_context = None\<rparr>"

definition echo :: "rag_request \<Rightarrow> error + string" where
  "echo request = Inr (question request)"

section \<open>Properties\<close>

subsection \<open>Auxiliary facts\<close>

lemma config_cases:
  "get_rate_limit_config user_type = Inr config \<Longrightarrow>
     config_limit config \<in> {20, 100, 500} \<and> config_window config = 60"
  by (auto simp: get_rate_limit_config_def RATE_LIMITS_def split: if_splits)

lemma config_total: "\<exists>config. get_rate_limit_config user_type = Inr config"
  by (simp add: get_rate_limit_config_def RATE_LIMITS_def)

lemma config_default:
  "get_rate_limit_config ''global_unauthenticated_user'' =
     Inr \<lparr>config_limit = 20, config_window = 60\<rparr>"
  by (simp add: get_rate_limit_config_def RATE_LIMITS_def)

lemma py_min_Min:
  assumes "xs \<noteq> []"
  shows "py_min xs = Inr (Min (set xs))"
proof (cases xs)
  case Nil
  with assms show ?thesis by simp
next
  case (Cons y ys)
  then show ?thesis using Min.set_eq_fold [of y ys] by simp
qed

lemma get_requests_from_memory_eq:
  assumes "get_requests_from_memory self key window t = (a, self')"
  shows "heap self' a = in_window self key window t"
    and "memory_store self' key = Some a"
    and "redis_client self' = redis_client self"
    and "redis_server self' = redis_server self"
  using assms
  by (auto simp: get_requests_from_memory_def memory_store_getitem_def records_def new_list_def
      split: option.splits prod.splits)

lemma add_request_to_memory_eq:
  "memory_store self key = Some a \<Longrightarrow>
     add_request_to_memory self key ts = self\<lparr>heap := (heap self)(a := heap self a @ [ts])\<rparr>"
  by (simp add: add_request_to_memory_def memory_store_getitem_def)

lemma fetch_step_memory:
  assumes "redis_client self = None"
    and "fetch_step self key window t = (a, self1)"
  shows "heap self1 a = in_window self key window t"
    and "memory_store self1 key = Some a"
    and "redis_client self1 = None"
  using assms get_requests_from_memory_eq [of self key window t a self1]
  by (simp_all add: fetch_step_def)

text \<open>
  \<^verbatim>\<open>check_rate_limit\<close> after its fetch step. Every configured limit is positive, so a
  rejection always has a record to take the minimum of.
\<close>

lemma check_rate_limit_unfold:
  assumes "get_rate_limit_config user_type = Inr config"
    and "fetch_step self (''rate_limit:'' @ user_id) (config_window config) fetch_time = (a, self1)"
  shows "check_rate_limit self user_id user_type current_time fetch_time =
     (if config_limit config \<le> int (length (heap self1 a))
      then (Inl (HTTPException 429 (Payload
              \<lparr>detail_error = ''Rate limit exceeded'',
               detail_limit = config_limit config,
               detail_window = config_window config,
               current_usage = int (length (heap self1 a)),
               detail_reset_time = Min (set (heap self1 a)) + real_of_int (config_window config),
               retry_after =
                 py_int (Min (set (heap self1 a)) + real_of_int (config_window config) - current_time)\<rparr>)),
            self1)
      else (let self2 =
              (if redis_client self1 \<noteq> None
               then add_request_to_redis self1 (''rate_limit:'' @ user_id) current_time (config_window config)
               else add_request_to_memory self1 (''rate_limit:'' @ user_id) current_time)
            in (Inr \<lparr>allowed = True, status_limit = config_limit config,
                     remaining = config_limit config - int (length (heap self2 a)) - 1,
                     reset_time = current_time + real_of_int (config_window config)\<rparr>, self2)))"
proof (cases "config_limit config \<le> int (length (heap self1 a))")
  case True
  from config_cases [OF assms(1)] True have "heap self1 a \<noteq> []" by auto
  from py_min_Min [OF this] True assms show ?thesis
    by (simp add: check_rate_limit_def fetch_step_def Let_def)
next
  case False
  with assms show ?thesis
    by (simp add: check_rate_limit_def fetch_step_def Let_def)
qed

text \<open>The two outcomes of \<^verbatim>\<open>check_rate_limit\<close> on the in-memory store.\<close>

lemma check_rate_limit_memory_rejected:
  assumes "redis_client self = None"
    and "get_rate_limit_config user_type = Inr config"
    and "config_limit config \<le>
           int (length (in_window self (''rate_limit:'' @ user_id) (config_window config) fetch_time))"
  shows "fst (check_rate_limit self user_id user_type current_time fetch_time) =
           Inl (HTTPException 429 (Payload
              \<lparr>detail_error = ''Rate limit exceeded'',
               detail_limit = config_limit config,
               detail_window = config_window config,
               current_usage =
                 int (length (in_window self (''rate_limit:'' @ user_id) (config_window config) fetch_time)),
               detail_reset_time =
                 Min (set (in_window self (''rate_limit:'' @ user_id) (config_window config) fetch_time))
                   + real_of_int (config_window config),
               retry_after =
                 py_int (Min (set (in_window self (''rate_limit:'' @ user_id) (config_window config) fetch_time))
                   + real_of_int (config_window config) - current_time)\<rparr>))"
      (is ?result)
    and "records (snd (check_rate_limit self user_id user_type current_time fetch_time))
             (''rate_limit:'' @ user_id) =
           in_window self (''rate_limit:'' @ user_id) (config_window config) fetch_time"
      (is ?stored)
    and "redis_client (snd (check_rate_limit self user_id user_type current_time fetch_time)) = None"
      (is ?client)
proof -
  obtain a self1 where
    f: "fetch_step self (''rate_limit:'' @ user_id) (config_window config) fetch_time = (a, self1)"
    by (cases "fetch_step self (''rate_limit:'' @ user_id) (config_window config) fetch_time")
  note m = fetch_step_memory [OF assms(1) f]
  note u = check_rate_limit_unfold [OF assms(2) f, of current_time]
  from assms(3) m(1) have le: "config_limit config \<le> int (length (heap self1 a))" by simp
  show ?result using u le m(1) by simp
  show ?stored using u le m(1,2) by (simp add: records_def)
  show ?client using u le m(3) by simp
qed

lemma check_rate_limit_memory_admitted:
  assumes "redis_client self = None"
    and "get_rate_limit_config user_type = Inr config"
    and "int (length (in_window self (''rate_limit:'' @ user_id) (config_window config) fetch_time))
           < config_limit config"
  shows "fst (check_rate_limit self user_id user_type current_time fetch_time) =
           Inr \<lparr>allowed = True, status_limit = config_limit config,
                remaining = config_limit config
                  - int (length (in_window self (''rate_limit:'' @ user_id) (config_window config) fetch_time))
                  - 2,
                reset_time = current_time + real_of_int (config_window config)\<rparr>"
      (is ?result)
    and "records (snd (check_rate_limit self user_id user_type current_time fetch_time))
             (''rate_limit:'' @ user_id) =
           in_window self (''rate_limit:'' @ user_id) (config_window config) fetch_time @ [current_time]"
      (is ?stored)
    and "redis_client (snd (check_rate_limit self user_id user_type current_time fetch_time)) = None"
      (is ?client)
proof -
  obtain a self1 where
    f: "fetch_step self (''rate_limit:'' @ user_id) (config_window config) fetch_time = (a, self1)"
    by (cases "fetch_step self (''rate_limit:'' @ user_id) (config_window config) fetch_time")
  note m = fetch_step_memory [OF assms(1) f]
  note u = check_rate_limit_unfold [OF assms(2) f, of current_time]
  note ad = add_request_to_memory_eq [OF m(2), of current_time]
  from assms(3) m(1) have lt: "\<not> config_limit config \<le> int (length (heap self1 a))" by simp
  show ?result using u lt m(1,3) ad by (simp add: Let_def)
  show ?stored using u lt m ad by (simp add: Let_def records_def)
  show ?client using u lt m(3) ad by (simp add: Let_def)
qed

lemma records_fallback_with [simp]: "records (fallback_with key xs) key = xs"
  by (simp add: records_def fallback_with_def)

lemma redis_client_fallback_with [simp]: "redis_client (fallback_with key xs) = None"
  by (simp add: fallback_with_def)

lemma count_list_filter:
  "count_list (filter P xs) x = (if P x then count_list xs x else 0)"
  by (induction xs) auto

subsection \<open>Pruning on the in-memory store\<close>

text \<open>
  Claim C7. A prune-and-fetch on the in-memory store (\<^verbatim>\<open>_get_requests_from_memory\<close>)
  returns, and leaves stored under the key, exactly the records with a timestamp strictly
  greater than \<open>now - window\<close>: the records with a timestamp \<open>\<le> now - window\<close> are
  removed, every other record is kept with its value, its multiplicity and its position
  relative to the others.
\<close>

theorem prune_and_fetch_memory:
  "heap (snd (get_requests_from_memory self key window t)) (fst (get_requests_from_memory self key window t))
     = filter (\<lambda>x. x > t - real_of_int window) (records self key)
   \<and> records (snd (get_requests_from_memory self key window t)) key
     = filter (\<lambda>x. x > t - real_of_int window) (records self key)
   \<and> set (records (snd (get_requests_from_memory self key window t)) key)
     = set (records self key) - {x. x \<le> t - real_of_int window}
   \<and> (\<forall>x. count_list (records (snd (get_requests_from_memory self key window t)) key) x
          = (if x > t - real_of_int window then count_list (records self key) x else 0))
   \<and> subseq (records (snd (get_requests_from_memory self key window t)) key) (records self key)"
proof -
  obtain a self' where g: "get_requests_from_memory self key window t = (a, self')"
    by (cases "get_requests_from_memory self key window t")
  note e = get_requests_from_memory_eq [OF g]
  have r: "records self' key = in_window self key window t"
    using e(1,2) by (simp add: records_def)
  show ?thesis
    using g e(1) r by (auto simp: count_list_filter)
qed

subsection \<open>The policy of an unknown tier\<close>



text \<open>The key \<^verbatim>\<open>rate_limit:u1\<close> holding twenty records at time \<open>1/2\<close>, checked at time \<open>1\<close>.\<close>

lemma in_window_twenty_halves:
  "t < 1/2 \<Longrightarrow> filter (\<lambda>x. x > t) twenty_halves = twenty_halves"
  by (simp add: twenty_halves_def)

lemma length_twenty_halves: "length twenty_halves = 20"
  by (simp add: twenty_halves_def)

lemma set_twenty_halves: "set twenty_halves = {1/2}"
  by (simp add: twenty_halves_def)

lemma full_rejected:
  "fst (check_rate_limit (fallback_with ''rate_limit:u1'' twenty_halves) ''u1''
          ''global_unauthenticated_user'' 1 1) =
     Inl (HTTPException 429 (Payload
        \<lparr>detail_error = ''Rate limit exceeded'', detail_limit = 20, detail_window = 60,
         current_usage = 20, detail_reset_time = 121/2, retry_after = 59\<rparr>))"
proof -
  have k: "''rate_limit:'' @ ''u1'' = ''rate_limit:u1''" by simp
  have "py_int (119 / 2) = 59" by (simp add: py_int_def)
  then show ?thesis
    using check_rate_limit_memory_rejected(1)
          [of "fallback_with ''rate_limit:u1'' twenty_halves" "''global_unauthenticated_user''"
              "\<lparr>config_limit = 20, config_window = 60\<rparr>" 1 "''u1''" 1]
    by (simp add: k config_default in_window_twenty_halves length_twenty_halves set_twenty_halves
        del: append.simps)
qed

subsection \<open>A rejection records nothing\<close>

text \<open>
  Claim C3. When \<^verbatim>\<open>check_rate_limit\<close> rejects, the state it leaves is the state left by
  its fetch step: nothing is written after the read, on either backend. On the in-memory
  store the records of the key are then exactly the pruned records the call observed.
\<close>

theorem rejection_leaves_store:
  assumes "get_rate_limit_config user_type = Inr config"
    and "check_rate_limit self user_id user_type current_time fetch_time = (Inl e, self')"
  shows "self' = snd (fetch_step self (''rate_limit:'' @ user_id) (config_window config) fetch_time)
    \<and> (redis_client self = None \<longrightarrow>
         records self' (''rate_limit:'' @ user_id)
           = in_window self (''rate_limit:'' @ user_id) (config_window config) fetch_time)"
proof -
  obtain a self1 where
    f: "fetch_step self (''rate_limit:'' @ user_id) (config_window config) fetch_time = (a, self1)"
    by (cases "fetch_step self (''rate_limit:'' @ user_id) (config_window config) fetch_time")
  note u = check_rate_limit_unfold [OF assms(1) f, of current_time]
  from u assms(2) have s: "self' = self1"
    by (auto simp: Let_def split: if_splits)
  show ?thesis
  proof (intro conjI impI)
    show "self' = snd (fetch_step self (''rate_limit:'' @ user_id) (config_window config) fetch_time)"
      using s f by simp
  next
    assume n: "redis_client self = None"
    from fetch_step_memory [OF n f] s
    show "records self' (''rate_limit:'' @ user_id)
           = in_window self (''rate_limit:'' @ user_id) (config_window config) fetch_time"
      by (simp add: records_def)
  qed
qed


theorem rejection_leaves_store_witness:
  "get_rate_limit_config ''global_unauthenticated_user'' = Inr \<lparr>config_limit = 20, config_window = 60\<rparr>
   \<and> isl (fst (check_rate_limit (fallback_with ''rate_limit:u1'' twenty_halves) ''u1''
              ''global_unauthenticated_user'' 1 1))
   \<and> records (snd (check_rate_limit (fallback_with ''rate_limit:u1'' twenty_halves) ''u1''
              ''global_unauthenticated_user'' 1 1)) ''rate_limit:u1'' = twenty_halves"
proof -
  let ?c = "check_rate_limit (fallback_with ''rate_limit:u1'' twenty_halves) ''u1''
              ''global_unauthenticated_user'' 1 1"
  have k: "''rate_limit:'' @ ''u1'' = ''rate_limit:u1''" by simp
  obtain e where e: "fst ?c = Inl e" using full_rejected by blast
  then have h: "?c = (Inl e, snd ?c)" by (metis prod.collapse)
  from rejection_leaves_store [OF config_default h]
  have "redis_client (fallback_with ''rate_limit:u1'' twenty_halves) = None \<longrightarrow>
          records (snd ?c) (''rate_limit:'' @ ''u1'') =
            in_window (fallback_with ''rate_limit:u1'' twenty_halves) (''rate_limit:'' @ ''u1'')
              (config_window \<lparr>config_limit = 20, config_window = 60\<rparr>) 1"
    by (rule conjunct2)
  then have "records (snd ?c) ''rate_limit:u1'' = twenty_halves"
    by (simp add: in_window_twenty_halves)
  with e show ?thesis by (simp add: config_default)
qed

subsection \<open>The retry delay of a rejection\<close>

text \<open>
  Claim C5, as amended. In every rejection \<open>reset_time\<close> is \<open>min(recent) + window\<close> and
  \<open>retry_after\<close> is \<^verbatim>\<open>int(reset_time - now)\<close>, the difference truncated toward zero to
  an integer, where \<open>now\<close> is the clock reading at the start of the call. The code applies
  no clamp at zero; on the in-memory store, with a fetch reading of the clock not earlier
  than \<open>now\<close>, the difference is positive and \<open>retry_after\<close> is
  \<open>max 0 \<lfloor>reset_time - now\<rfloor>\<close>.
\<close>

theorem retry_after_truncated:
  assumes "get_rate_limit_config user_type = Inr config"
    and "fetch_step self (''rate_limit:'' @ user_id) (config_window config) fetch_time = (a, self1)"
    and "check_rate_limit self user_id user_type current_time fetch_time
           = (Inl (HTTPException code (Payload d)), self')"
  shows "detail_reset_time d = Min (set (heap self1 a)) + real_of_int (config_window config)
    \<and> retry_after d = py_int (detail_reset_time d - current_time)
    \<and> (redis_client self = None \<and> current_time \<le> fetch_time \<longrightarrow>
         retry_after d = max 0 \<lfloor>detail_reset_time d - current_time\<rfloor>)"
proof -
  note u = check_rate_limit_unfold [OF assms(1,2), of current_time]
  from u assms(3) have le: "config_limit config \<le> int (length (heap self1 a))"
    by (auto simp: Let_def split: if_splits)
  from u assms(3) le have d: "d =
      \<lparr>detail_error = ''Rate limit exceeded'',
       detail_limit = config_limit config,
       detail_window = config_window config,
       current_usage = int (length (heap self1 a)),
       detail_reset_time = Min (set (heap self1 a)) + real_of_int (config_window config),
       retry_after =
         py_int (Min (set (heap self1 a)) + real_of_int (config_window config) - current_time)\<rparr>"
    by simp
  have nonneg: "retry_after d = max 0 \<lfloor>detail_reset_time d - current_time\<rfloor>"
    if n: "redis_client self = None" and t: "current_time \<le> fetch_time"
  proof -
    from config_cases [OF assms(1)] le have ne: "heap self1 a \<noteq> []" by auto
    then have "Min (set (heap self1 a)) \<in> set (heap self1 a)" by (intro Min_in) simp_all
    with fetch_step_memory(1) [OF n assms(2)]
    have "Min (set (heap self1 a)) > fetch_time - real_of_int (config_window config)" by simp
    with t have "0 \<le> detail_reset_time d - current_time" using d by simp
    then show ?thesis using d by (simp add: py_int_def max_def)
  qed
  show ?thesis using d nonneg by simp
qed

theorem retry_after_truncated_witness:
  "get_rate_limit_config ''global_unauthenticated_user'' = Inr \<lparr>config_limit = 20, config_window = 60\<rparr>
   \<and> redis_client (fallback_with ''rate_limit:u1'' twenty_halves) = None \<and> (1::real) \<le> 1
   \<and> (\<exists>d. fst (check_rate_limit (fallback_with ''rate_limit:u1'' twenty_halves) ''u1''
              ''global_unauthenticated_user'' 1 1) = Inl (HTTPException 429 (Payload d))
          \<and> retry_after d = py_int (detail_reset_time d - 1)
          \<and> retry_after d = max 0 \<lfloor>detail_reset_time d - 1\<rfloor>)"
proof -
  let ?s = "fallback_with ''rate_limit:u1'' twenty_halves"
  let ?c = "check_rate_limit ?s ''u1'' ''global_unauthenticated_user'' 1 1"
  let ?f = "fetch_step ?s (''rate_limit:'' @ ''u1'') (config_window \<lparr>config_limit = 20, config_window = 60\<rparr>) 1"
  have f: "?f = (fst ?f, snd ?f)" by simp
  obtain d where d: "fst ?c = Inl (HTTPException 429 (Payload d))" using full_rejected by blast
  then have h: "?c = (Inl (HTTPException 429 (Payload d)), snd ?c)" by (metis prod.collapse)
  from retry_after_truncated [OF config_default f h]
  have "retry_after d = py_int (detail_reset_time d - 1)"
    and "redis_client ?s = None \<and> (1::real) \<le> 1 \<longrightarrow>
           retry_after d = max 0 \<lfloor>detail_reset_time d - 1\<rfloor>"
    by blast+
  moreover have "redis_client ?s = None \<and> (1::real) \<le> 1" by simp
  ultimately show ?thesis using d config_default by blast
qed

text \<open>
  The claim as stated, \<open>retry_after = max 0 (reset_time - now)\<close>, fails where the
  difference is not an integer: twenty records at time \<open>1/2\<close>, a call at time \<open>1\<close>.
\<close>

theorem retry_after_not_clamped_difference:
  "fst (check_rate_limit (fallback_with ''rate_limit:u1'' twenty_halves) ''u1''
          ''global_unauthenticated_user'' 1 1) =
     Inl (HTTPException 429 (Payload
        \<lparr>detail_error = ''Rate limit exceeded'', detail_limit = 20, detail_window = 60,
         current_usage = 20, detail_reset_time = 121/2, retry_after = 59\<rparr>))
   \<and> real_of_int 59 \<noteq> max 0 (121/2 - 1)"
  using full_rejected by simp

subsection \<open>Admission after the reset time\<close>



subsection \<open>Reading the status without consuming a request\<close>






subsection \<open>A full window on the in-memory store\<close>

text \<open>
  Sequential calls on the in-memory store, all inside one window that also holds the
  records already stored: while the limit is not reached every call is admitted, and the
  call after the last admission is rejected with \<open>current_usage = limit\<close>. The admitted
  calls report \<open>remaining = limit - len(recent) - 2\<close>, since line 113 takes the length of
  the list after line 107 has appended to the same object.
\<close>

lemma check_sequence_memory:
  assumes "get_rate_limit_config user_type = Inr config"
  shows "redis_client self = None \<Longrightarrow>
    \<forall>x \<in> set (records self (''rate_limit:'' @ user_id)). t0 \<le> x \<Longrightarrow>
    \<forall>(now, ft) \<in> set ts. t0 \<le> now \<and> ft < t0 + real_of_int (config_window config) \<Longrightarrow>
    ft' < t0 + real_of_int (config_window config) \<Longrightarrow>
    int (length (records self (''rate_limit:'' @ user_id))) + int (length ts) = config_limit config \<Longrightarrow>
    map remaining_of (check_sequence self user_id user_type (ts @ [(now', ft')]))
      = map (\<lambda>i. Some (config_limit config
               - int (length (records self (''rate_limit:'' @ user_id))) - 2 - int i)) [0..<length ts]
        @ [None]
    \<and> map usage_of (check_sequence self user_id user_type (ts @ [(now', ft')]))
      = replicate (length ts) None @ [Some (config_limit config)]"
proof (induction ts arbitrary: self)
  case Nil
  let ?key = "''rate_limit:'' @ user_id"
  from Nil.prems(2,4) have "\<forall>x \<in> set (records self ?key). x > ft' - real_of_int (config_window config)"
    by auto
  then have w: "in_window self ?key (config_window config) ft' = records self ?key" by simp
  from Nil.prems(5) w have le: "config_limit config \<le> int (length (in_window self ?key (config_window config) ft'))"
    by simp
  have one: "check_sequence self user_id user_type ([] @ [(now', ft')])
      = [fst (check_rate_limit self user_id user_type now' ft')]"
    by (simp split: prod.splits)
  from check_rate_limit_memory_rejected(1) [OF Nil.prems(1) assms le, of now'] w Nil.prems(5)
  show ?case unfolding one by simp
next
  case (Cons p ts)
  obtain now ft where p: "p = (now, ft)" by (cases p)
  let ?key = "''rate_limit:'' @ user_id"
  let ?c = "check_rate_limit self user_id user_type now ft"
  let ?n = "int (length (records self ?key))"
  from Cons.prems(3) p have t: "t0 \<le> now" "ft < t0 + real_of_int (config_window config)" by auto
  from Cons.prems(2) t(2) have "\<forall>x \<in> set (records self ?key). x > ft - real_of_int (config_window config)"
    by auto
  then have w: "in_window self ?key (config_window config) ft = records self ?key" by simp
  from Cons.prems(5) w have lt: "int (length (in_window self ?key (config_window config) ft)) < config_limit config"
    by simp
  note a = check_rate_limit_memory_admitted [OF Cons.prems(1) assms lt, of now]
  from a(2) w have r: "records (snd ?c) ?key = records self ?key @ [now]" by simp
  have ih: "map remaining_of (check_sequence (snd ?c) user_id user_type (ts @ [(now', ft')]))
      = map (\<lambda>i. Some (config_limit config - int (length (records (snd ?c) ?key)) - 2 - int i)) [0..<length ts]
        @ [None]
    \<and> map usage_of (check_sequence (snd ?c) user_id user_type (ts @ [(now', ft')]))
      = replicate (length ts) None @ [Some (config_limit config)]"
  proof (rule Cons.IH [OF a(3)])
    show "\<forall>x \<in> set (records (snd ?c) ?key). t0 \<le> x" using r Cons.prems(2) t(1) by auto
    show "\<forall>(now, ft) \<in> set ts. t0 \<le> now \<and> ft < t0 + real_of_int (config_window config)"
      using Cons.prems(3) by simp
    show "ft' < t0 + real_of_int (config_window config)" by (rule Cons.prems(4))
    show "int (length (records (snd ?c) ?key)) + int (length ts) = config_limit config"
      using r Cons.prems(5) by simp
  qed
  have hd: "remaining_of (fst ?c) = Some (config_limit config - ?n - 2)" "usage_of (fst ?c) = None"
    using a(1) w by simp_all
  have unfold: "check_sequence self user_id user_type ((p # ts) @ [(now', ft')])
      = fst ?c # check_sequence (snd ?c) user_id user_type (ts @ [(now', ft')])"
    by (simp add: p split: prod.splits)
  have shift: "map (\<lambda>i. Some (config_limit config - ?n - 2 - int i)) [0..<length (p # ts)]
      = Some (config_limit config - ?n - 2)
        # map (\<lambda>i. Some (config_limit config - int (length (records (snd ?c) ?key)) - 2 - int i)) [0..<length ts]"
    using r by (simp add: upt_conv_Cons map_Suc_upt [symmetric] del: upt_Suc)
  show ?case
    unfolding unfold shift using hd ih by simp
qed

text \<open>
  Claim C1 at a concrete input: the in-memory store before any request, user \<open>u1\<close>, tier
  \<^verbatim>\<open>global_unauthenticated_user\<close> (limit 20, window 60), 21 sequential calls at time
  \<open>0\<close>. The first 20 calls are admitted and the 21st is rejected with
  \<open>current_usage = 20\<close>, as the claim says, but \<open>remaining\<close> runs from 18 down to \<open>-1\<close>,
  not from 19 down to 0.
\<close>

theorem fallback_sequence_remaining: "map remaining_of (check_sequence fallback_limiter ''u1'' ''global_unauthenticated_user'' (twenty_calls @ [(0, 0)]))
  = [Some 18, Some 17, Some 16, Some 15, Some 14, Some 13, Some 12, Some 11, Some 10, Some 9, Some 8, Some 7, Some 6, Some 5, Some 4, Some 3, Some 2, Some 1, Some 0, Some (-1), None]
  \<and> map usage_of (check_sequence fallback_limiter ''u1'' ''global_unauthenticated_user'' (twenty_calls @ [(0, 0)]))
  = replicate 20 None @ [Some 20]"
proof -
  have n: "redis_client fallback_limiter = None" by (simp add: fallback_limiter_def)
  have r': "records fallback_limiter ''rate_limit:u1'' = []"
    by (simp add: fallback_limiter_def records_def)
  then have r: "records fallback_limiter (''rate_limit:'' @ ''u1'') = []" by simp
  have l: "length twenty_calls = 20" by (simp add: twenty_calls_def)
  have t: "\<forall>(now, ft) \<in> set twenty_calls.
      (0::real) \<le> now \<and> ft < 0 + real_of_int (config_window \<lparr>config_limit = 20, config_window = 60\<rparr>)"
    by (simp add: twenty_calls_def)
  have m: "map (\<lambda>i. Some (20 - int (length ([]::real list)) - 2 - int i)) [0..<20]
      = [Some 18, Some 17, Some 16, Some 15, Some 14, Some 13, Some 12, Some 11, Some 10, Some 9,
         Some 8, Some 7, Some 6, Some 5, Some 4, Some 3, Some 2, Some 1, Some 0, Some (-1)]"
    by code_simp
  have "map remaining_of (check_sequence fallback_limiter ''u1'' ''global_unauthenticated_user''
          (twenty_calls @ [(0, 0)]))
      = map (\<lambda>i. Some (config_limit \<lparr>config_limit = 20, config_window = 60\<rparr>
               - int (length (records fallback_limiter (''rate_limit:'' @ ''u1''))) - 2 - int i))
          [0..<length twenty_calls] @ [None]
    \<and> map usage_of (check_sequence fallback_limiter ''u1'' ''global_unauthenticated_user''
          (twenty_calls @ [(0, 0)]))
      = replicate (length twenty_calls) None
          @ [Some (config_limit \<lparr>config_limit = 20, config_window = 60\<rparr>)]"
    by (rule check_sequence_memory [OF config_default n _ t]) (simp_all add: r' l)
  then show ?thesis
    unfolding r l using m by simp
qed


subsection \<open>The status returned by an admission\<close>

lemma in_window_nineteen_zeros:
  "t < 0 \<Longrightarrow> filter (\<lambda>x. x > t) nineteen_zeros = nineteen_zeros"
  by (simp add: nineteen_zeros_def)

lemma length_nineteen_zeros: "length nineteen_zeros = 19"
  by (simp add: nineteen_zeros_def)

text \<open>
  Claim C4 at a concrete input: the in-memory store holding 19 records at time \<open>0\<close> for
  user \<open>u1\<close>, a call at time \<open>1\<close>. The call is admitted, exactly the record \<open>1\<close> is
  appended and \<open>reset_time\<close> is \<open>now + window\<close>, but \<open>remaining\<close> is \<open>-1\<close> where the
  claim gives \<open>max 0 (20 - 19 - 1) = 0\<close>.
\<close>

theorem last_admission_remaining_negative:
  "fst (check_rate_limit (fallback_with ''rate_limit:u1'' nineteen_zeros) ''u1''
          ''global_unauthenticated_user'' 1 1)
     = Inr \<lparr>allowed = True, status_limit = 20, remaining = - 1, reset_time = 61\<rparr>
   \<and> records (snd (check_rate_limit (fallback_with ''rate_limit:u1'' nineteen_zeros) ''u1''
          ''global_unauthenticated_user'' 1 1)) ''rate_limit:u1''
     = nineteen_zeros @ [1]
   \<and> max 0 (20 - int (length nineteen_zeros) - 1) = 0"
  using check_rate_limit_memory_admitted(1,2)
          [of "fallback_with ''rate_limit:u1'' nineteen_zeros" "''global_unauthenticated_user''"
              "\<lparr>config_limit = 20, config_window = 60\<rparr>" 1 "''u1''" 1]
  by (simp add: config_default in_window_nineteen_zeros length_nineteen_zeros)

subsection \<open>Errors of the shared backend\<close>

lemma check_rate_limit_errors:
  "case fst (check_rate_limit self user_id user_type current_time fetch_time) of
     Inr status \<Rightarrow> allowed status
   | Inl err \<Rightarrow> rate_limit_exceeded err"
proof -
  obtain config where c: "get_rate_limit_config user_type = Inr config"
    using config_total by blast
  obtain a self1 where
    f: "fetch_step self (''rate_limit:'' @ user_id) (config_window config) fetch_time = (a, self1)"
    by (cases "fetch_step self (''rate_limit:'' @ user_id) (config_window config) fetch_time")
  show ?thesis
    unfolding check_rate_limit_unfold [OF c f] by (simp add: Let_def)
qed

text \<open>
  Claim C2, as amended. With a client for the shared backend: if \<^verbatim>\<open>zremrangebyscore\<close>
  or \<^verbatim>\<open>zrangebyscore\<close> raises, the fetch step returns a new empty list. If \<^verbatim>\<open>zadd\<close>
  raises, the record step returns without calling \<^verbatim>\<open>expire\<close>, and the limiter is
  unchanged but for the state the failed call left the server in. If \<^verbatim>\<open>expire\<close> raises
  after \<^verbatim>\<open>zadd\<close> has succeeded, the record step returns with the server in the state left
  by the \<^verbatim>\<open>zadd\<close> and then the failed \<^verbatim>\<open>expire\<close>: the write is not undone, only the
  expiration is missing. In every case the exception is absorbed, and
  \<^verbatim>\<open>check_rate_limit\<close> either returns an admission or raises the 429 rejection of
  line 91: no other exception leaves it.
\<close>

theorem backend_errors_absorbed:
  assumes "redis_client self = Some c"
  shows
   "(zremrangebyscore c key 0 (t - real_of_int window) (redis_server self) = (Inl e, r1) \<longrightarrow>
       get_requests_from_redis self key window t = new_list [] (self\<lparr>redis_server := r1\<rparr>))
    \<and> (zremrangebyscore c key 0 (t - real_of_int window) (redis_server self) = (Inr n, r1)
        \<and> zrangebyscore c key (t - real_of_int window) t r1 = (Inl e, r2) \<longrightarrow>
       get_requests_from_redis self key window t = new_list [] (self\<lparr>redis_server := r2\<rparr>))
    \<and> (zadd c key (py_str c t) t (redis_server self) = (Inl e, r1) \<longrightarrow>
       add_request_to_redis self key t window = self\<lparr>redis_server := r1\<rparr>)
    \<and> (zadd c key (py_str c t) t (redis_server self) = (Inr n, r1)
        \<and> expire c key window r1 = (Inl e, r2) \<longrightarrow>
       add_request_to_redis self key t window = self\<lparr>redis_server := r2\<rparr>)
    \<and> (case fst (check_rate_limit self user_id user_type current_time fetch_time) of
         Inr status \<Rightarrow> allowed status
       | Inl err \<Rightarrow> rate_limit_exceeded err)"
  using assms check_rate_limit_errors [of self user_id user_type current_time fetch_time]
  by (simp add: get_requests_from_redis_def get_requests_from_redis_try_def
      add_request_to_redis_def add_request_to_redis_try_def)

theorem backend_errors_absorbed_witness:
  "redis_client (shared_limiter unreachable_client) = Some unreachable_client
   \<and> zremrangebyscore unreachable_client ''rate_limit:u1'' 0 (0 - real_of_int 60) 0 = (Inl BackendError, 0)
   \<and> get_requests_from_redis (shared_limiter unreachable_client) ''rate_limit:u1'' 60 0
       = new_list [] (shared_limiter unreachable_client)
   \<and> zadd unreachable_client ''rate_limit:u1'' (py_str unreachable_client 0) 0 0 = (Inl BackendError, 0)
   \<and> add_request_to_redis (shared_limiter unreachable_client) ''rate_limit:u1'' 0 60
       = shared_limiter unreachable_client
   \<and> redis_client (shared_limiter flaky_client) = Some flaky_client
   \<and> zremrangebyscore flaky_client ''rate_limit:u1'' 0 (0 - real_of_int 60) 0 = (Inr 0, 0)
   \<and> zrangebyscore flaky_client ''rate_limit:u1'' (0 - real_of_int 60) 0 0 = (Inl BackendError, 0)
   \<and> get_requests_from_redis (shared_limiter flaky_client) ''rate_limit:u1'' 60 0
       = new_list [] (shared_limiter flaky_client)
   \<and> zadd flaky_client ''rate_limit:u1'' (py_str flaky_client 0) 0 0 = (Inr 1, 1)
   \<and> expire flaky_client ''rate_limit:u1'' 60 1 = (Inl BackendError, 1)
   \<and> add_request_to_redis (shared_limiter flaky_client) ''rate_limit:u1'' 0 60
       = (shared_limiter flaky_client)\<lparr>redis_server := 1\<rparr>
   \<and> fst (check_rate_limit (shared_limiter unreachable_client) ''u1''
            ''global_unauthenticated_user'' 0 0)
       = Inr \<lparr>allowed = True, status_limit = 20, remaining = 19, reset_time = 60\<rparr>"
proof -
  have u: "redis_client (shared_limiter unreachable_client) = Some unreachable_client"
    by (simp add: shared_limiter_def)
  have f: "redis_client (shared_limiter flaky_client) = Some flaky_client"
    by (simp add: shared_limiter_def)
  have us: "redis_server (shared_limiter unreachable_client) = 0"
    "redis_server (shared_limiter flaky_client) = 0"
    "(shared_limiter unreachable_client)\<lparr>redis_server := 0\<rparr> = shared_limiter unreachable_client"
    "(shared_limiter flaky_client)\<lparr>redis_server := 0\<rparr> = shared_limiter flaky_client"
    by (simp_all add: shared_limiter_def)
  have calls:
    "zremrangebyscore unreachable_client ''rate_limit:u1'' 0 (0 - real_of_int 60) 0 = (Inl BackendError, 0)"
    "zadd unreachable_client ''rate_limit:u1'' (py_str unreachable_client 0) 0 0 = (Inl BackendError, 0)"
    "zremrangebyscore flaky_client ''rate_limit:u1'' 0 (0 - real_of_int 60) 0 = (Inr 0, 0)"
    "zrangebyscore flaky_client ''rate_limit:u1'' (0 - real_of_int 60) 0 0 = (Inl BackendError, 0)"
    "zadd flaky_client ''rate_limit:u1'' (py_str flaky_client 0) 0 0 = (Inr 1, 1)"
    "expire flaky_client ''rate_limit:u1'' 60 1 = (Inl BackendError, 1)"
    by (simp_all add: unreachable_client_def flaky_client_def)
  note a = backend_errors_absorbed [OF u, of "''rate_limit:u1''" 0 60 BackendError 0 0 0
      "''u1''" "''global_unauthenticated_user''" 0 0]
  note b = backend_errors_absorbed [OF f, of "''rate_limit:u1''" 0 60 BackendError 0 0 0
      "''u1''" "''global_unauthenticated_user''" 0 0]
  note b' = backend_errors_absorbed [OF f, of "''rate_limit:u1''" 0 60 BackendError 1 1 1
      "''u1''" "''global_unauthenticated_user''" 0 0]
  have g1: "get_requests_from_redis (shared_limiter unreachable_client) ''rate_limit:u1'' 60 0
       = new_list [] (shared_limiter unreachable_client)"
    using a calls(1) us by simp
  have g2: "add_request_to_redis (shared_limiter unreachable_client) ''rate_limit:u1'' 0 60
       = shared_limiter unreachable_client"
    using a calls(2) us by simp
  have g3: "get_requests_from_redis (shared_limiter flaky_client) ''rate_limit:u1'' 60 0
       = new_list [] (shared_limiter flaky_client)"
    using b calls(3,4) us by simp
  have g4: "add_request_to_redis (shared_limiter flaky_client) ''rate_limit:u1'' 0 60
       = (shared_limiter flaky_client)\<lparr>redis_server := 1\<rparr>"
    using b' calls(5,6) us by simp
  have g5: "fst (check_rate_limit (shared_limiter unreachable_client) ''u1''
            ''global_unauthenticated_user'' 0 0)
       = Inr \<lparr>allowed = True, status_limit = 20, remaining = 19, reset_time = 60\<rparr>"
    by (simp add: check_rate_limit_def config_default Let_def new_list_def
        get_requests_from_redis_def get_requests_from_redis_try_def
        add_request_to_redis_def add_request_to_redis_try_def
        shared_limiter_def unreachable_client_def)
  show ?thesis using u f calls g1 g2 g3 g4 g5 by simp
qed

text \<open>
  The claim as stated, that a raising backend call makes the record step a no-op, fails
  where \<^verbatim>\<open>expire\<close> raises after \<^verbatim>\<open>zadd\<close> has written: with the client that counts the
  members written, the record step absorbs the exception and leaves the server with one
  member more than before.
\<close>

theorem record_step_not_noop_when_expire_raises:
  "redis_client (shared_limiter flaky_client) = Some flaky_client
   \<and> zadd flaky_client ''rate_limit:u1'' (py_str flaky_client 0) 0
         (redis_server (shared_limiter flaky_client)) = (Inr 1, 1)
   \<and> expire flaky_client ''rate_limit:u1'' 60 1 = (Inl BackendError, 1)
   \<and> redis_server (shared_limiter flaky_client) = 0
   \<and> redis_server (add_request_to_redis (shared_limiter flaky_client) ''rate_limit:u1'' 0 60) = 1
   \<and> add_request_to_redis (shared_limiter flaky_client) ''rate_limit:u1'' 0 60
       \<noteq> shared_limiter flaky_client"
proof -
  have s: "redis_server (add_request_to_redis (shared_limiter flaky_client) ''rate_limit:u1'' 0 60) = 1"
    by (simp add: add_request_to_redis_def add_request_to_redis_try_def shared_limiter_def
        flaky_client_def)
  have z: "redis_server (shared_limiter flaky_client) = 0"
    by (simp add: shared_limiter_def)
  from s z have "add_request_to_redis (shared_limiter flaky_client) ''rate_limit:u1'' 0 60
       \<noteq> shared_limiter flaky_client"
    by auto
  then show ?thesis
    using s z by (simp add: shared_limiter_def flaky_client_def)
qed

subsection \<open>One budget for every caller of the endpoint\<close>

lemma check_rate_limit_memory_decision:
  assumes "redis_client self = None"
    and "get_rate_limit_config user_type = Inr config"
  shows "isl (fst (check_rate_limit self user_id user_type current_time fetch_time))
     = (config_limit config
          \<le> int (length (in_window self (''rate_limit:'' @ user_id) (config_window config) fetch_time)))"
proof (cases "config_limit config
          \<le> int (length (in_window self (''rate_limit:'' @ user_id) (config_window config) fetch_time))")
  case True
  from check_rate_limit_memory_rejected(1) [OF assms True, of current_time] True
  show ?thesis by simp
next
  case False
  then have "int (length (in_window self (''rate_limit:'' @ user_id) (config_window config) fetch_time))
      < config_limit config" by simp
  from check_rate_limit_memory_admitted(1) [OF assms this, of current_time] False
  show ?thesis by simp
qed

text \<open>
  Claim C10. The handler of \<^verbatim>\<open>/ask_rag\<close> calls \<^verbatim>\<open>apply_rate_limit\<close> with the constant
  \<^verbatim>\<open>global_unauthenticated_user\<close> as user id and the default tier, whatever the request:
  the limiter is left in the state of that one check, the same for any two requests, the
  policy is 20 requests per 60 seconds, a rejection by the limiter refuses every request
  alike, and on the in-memory store the decision is read off the single key
  \<^verbatim>\<open>rate_limit:global_unauthenticated_user\<close>.
\<close>

theorem ask_rag_shared_budget:
  "snd (ask_rag_endpoint respond request rate_limiter current_time fetch_time)
     = snd (check_rate_limit rate_limiter ''global_unauthenticated_user''
              ''global_unauthenticated_user'' current_time fetch_time)
   \<and> snd (ask_rag_endpoint respond request rate_limiter current_time fetch_time)
     = snd (ask_rag_endpoint respond request' rate_limiter current_time fetch_time)
   \<and> get_rate_limit_config ''global_unauthenticated_user''
     = Inr \<lparr>config_limit = 20, config_window = 60\<rparr>
   \<and> (isl (fst (check_rate_limit rate_limiter ''global_unauthenticated_user''
              ''global_unauthenticated_user'' current_time fetch_time)) \<longrightarrow>
        fst (ask_rag_endpoint respond request rate_limiter current_time fetch_time)
          = Inl (HTTPException 500 (Message ''Internal server error''))
        \<and> fst (ask_rag_endpoint respond request' rate_limiter current_time fetch_time)
          = Inl (HTTPException 500 (Message ''Internal server error'')))
   \<and> (redis_client rate_limiter = None \<longrightarrow>
        isl (fst (check_rate_limit rate_limiter ''global_unauthenticated_user''
              ''global_unauthenticated_user'' current_time fetch_time))
          = (20 \<le> int (length (in_window rate_limiter ''rate_limit:global_unauthenticated_user''
                                   60 fetch_time))))"
proof -
  let ?c = "check_rate_limit rate_limiter ''global_unauthenticated_user''
              ''global_unauthenticated_user'' current_time fetch_time"
  have s: "snd (ask_rag_endpoint respond r rate_limiter current_time fetch_time) = snd ?c" for r
    by (cases ?c) (simp add: ask_rag_endpoint_def apply_rate_limit_def split: sum.splits)
  have e: "isl (fst ?c) \<Longrightarrow>
      fst (ask_rag_endpoint respond r rate_limiter current_time fetch_time)
        = Inl (HTTPException 500 (Message ''Internal server error''))" for r
    by (cases ?c) (auto simp: ask_rag_endpoint_def apply_rate_limit_def split: sum.splits)
  have d: "redis_client rate_limiter = None \<Longrightarrow>
      isl (fst ?c) = (20 \<le> int (length (in_window rate_limiter
         ''rate_limit:global_unauthenticated_user'' 60 fetch_time)))"
    using check_rate_limit_memory_decision [OF _ config_default,
        of rate_limiter "''global_unauthenticated_user''" current_time fetch_time]
    by simp
  show ?thesis using s e d config_default by simp
qed

theorem ask_rag_shared_budget_witness:
  "redis_client (fallback_with ''rate_limit:global_unauthenticated_user'' twenty_halves) = None
   \<and> isl (fst (check_rate_limit (fallback_with ''rate_limit:global_unauthenticated_user'' twenty_halves)
        ''global_unauthenticated_user'' ''global_unauthenticated_user'' 1 1))
   \<and> request_a \<noteq> request_b
   \<and> fst (ask_rag_endpoint echo request_a
        (fallback_with ''rate_limit:global_unauthenticated_user'' twenty_halves) 1 1)
       = Inl (HTTPException 500 (Message ''Internal server error''))
   \<and> fst (ask_rag_endpoint echo request_b
        (fallback_with ''rate_limit:global_unauthenticated_user'' twenty_halves) 1 1)
       = Inl (HTTPException 500 (Message ''Internal server error''))"
proof -
  let ?s = "fallback_with ''rate_limit:global_unauthenticated_user'' twenty_halves"
  note t = ask_rag_shared_budget [of echo request_a ?s 1 1 request_b]
  have n: "redis_client ?s = None" by simp
  have "isl (fst (check_rate_limit ?s ''global_unauthenticated_user''
              ''global_unauthenticated_user'' 1 1))
          = (20 \<le> int (length (in_window ?s ''rate_limit:global_unauthenticated_user'' 60 1)))"
    using t n by blast
  then have r: "isl (fst (check_rate_limit ?s ''global_unauthenticated_user''
              ''global_unauthenticated_user'' 1 1))"
    by (simp add: in_window_twenty_halves length_twenty_halves)
  have ne: "request_a \<noteq> request_b" by (simp add: request_a_def request_b_def)
  show ?thesis using t n r ne by blast
qed

end
